theory Spec2Isabelle
  imports Complex_Main "HOL-Library.Word"
begin

section \<open>JavaScript values used by \<open>App.jsx\<close>\<close>

text \<open>
  A JavaScript string is a sequence of UTF-16 code units. String literals of the source
  are ASCII and are written through \<open>js\<close>.
\<close>

type_synonym jsstring = "16 word list"

definition js :: "string \<Rightarrow> jsstring" where
  "js cs = map of_char cs"

text \<open>
  Numbers are only tested for truthiness and compared with the literals 401, 403 and 429,
  so a finite number is kept as the rational it denotes (both zeros are \<open>Finite 0\<close>).
\<close>

datatype jsnum = NaN | Infinity bool | Finite rat

text \<open>
  The values a parsed response body, an axios response or an axios error is built from.
  An object is the list of its own properties; lookup takes the first match.
\<close>

datatype jsval =
    JUndefined
  | JNull
  | JBool bool
  | JNum jsnum
  | JStr jsstring
  | JArr "jsval list"
  | JObj "(jsstring \<times> jsval) list"

fun truthy :: "jsval \<Rightarrow> bool" where
  "truthy JUndefined = False"
| "truthy JNull = False"
| "truthy (JBool b) = b"
| "truthy (JNum NaN) = False"
| "truthy (JNum (Infinity _)) = True"
| "truthy (JNum (Finite q)) = (q \<noteq> 0)"
| "truthy (JStr t) = (t \<noteq> [])"
| "truthy (JArr _) = True"
| "truthy (JObj _) = True"

text \<open>\<open>a || b\<close>\<close>

definition or_else :: "jsval \<Rightarrow> jsval \<Rightarrow> jsval" where
  "or_else a b = (if truthy a then a else b)"

text \<open>
  \<open>v?.k\<close> for the keys the source reads (\<open>data\<close>, \<open>translatedText\<close>, \<open>response\<close>,
  \<open>status\<close>): undefined on \<open>undefined\<close> and \<open>null\<close> by the optional chain, and undefined
  on every primitive and array, whose prototypes have none of these keys.
\<close>

fun opt_get :: "jsval \<Rightarrow> jsstring \<Rightarrow> jsval" where
  "opt_get (JObj props) k = (case map_of props k of Some v \<Rightarrow> v | None \<Rightarrow> JUndefined)"
| "opt_get _ k = JUndefined"

text \<open>\<open>response?.data?.data?.translatedText\<close> and \<open>err?.response?.status\<close>\<close>

definition translated_field :: "jsval \<Rightarrow> jsval" where
  "translated_field response =
     opt_get (opt_get (opt_get response (js ''data'')) (js ''data'')) (js ''translatedText'')"

definition response_status :: "jsval \<Rightarrow> jsval" where
  "response_status err = opt_get (opt_get err (js ''response'')) (js ''status'')"

text \<open>\<open>v === n\<close> for a finite number literal \<open>n\<close>\<close>

definition strict_eq_num :: "jsval \<Rightarrow> rat \<Rightarrow> bool" where
  "strict_eq_num v n = (v = JNum (Finite n))"

text \<open>
  \<open>String.prototype.trim\<close> removes the code units of WhiteSpace and LineTerminator
  from both ends.
\<close>

definition is_whitespace :: "16 word \<Rightarrow> bool" where
  "is_whitespace c =
     (c \<in> set [0x0009, 0x000A, 0x000B, 0x000C, 0x000D, 0x0020, 0x00A0, 0x1680,
               0x2028, 0x2029, 0x202F, 0x205F, 0x3000, 0xFEFF]
      \<or> (0x2000 \<le> c \<and> c \<le> 0x200A))"

definition trim :: "jsstring \<Rightarrow> jsstring" where
  "trim t = rev (dropWhile is_whitespace (rev (dropWhile is_whitespace t)))"


section \<open>Component state and effects\<close>

text \<open>
  The \<open>useState\<close> cells of \<open>App\<close>. The two text cells hold whatever was last handed to
  their setters, which for \<open>translatedText\<close> is a value taken from the response body.
\<close>

record state =
  inputText :: jsval
  translatedText :: jsval
  sourceLang :: jsstring
  targetLang :: jsstring
  isLoading :: bool
  error :: jsstring
  copied :: bool
  apiKey :: jsstring
  tempKey :: jsstring

text \<open>
  The \<open>options\<close> object handed to \<open>axios.request\<close>; \<open>req_data\<close> holds the pairs given
  to \<open>URLSearchParams\<close>.
\<close>

record request =
  req_method :: jsstring
  req_url :: jsstring
  req_headers :: "(jsstring \<times> jsstring) list"
  req_data :: "(jsstring \<times> jsstring) list"

text \<open>
  A handler reads the state of the render it was created in and acts through setter
  calls, \<open>axios.request\<close> and \<open>console.error\<close>. A run of a handler is the list of these
  calls in program order.
\<close>

datatype effect =
    SetInputText jsval
  | SetTranslatedText jsval
  | SetSourceLang jsstring
  | SetTargetLang jsstring
  | SetIsLoading bool
  | SetError jsstring
  | AxiosRequest request
  | ConsoleError jsval

fun apply_effect :: "effect \<Rightarrow> state \<Rightarrow> state" where
  "apply_effect (SetInputText v) s = s\<lparr>inputText := v\<rparr>"
| "apply_effect (SetTranslatedText v) s = s\<lparr>translatedText := v\<rparr>"
| "apply_effect (SetSourceLang l) s = s\<lparr>sourceLang := l\<rparr>"
| "apply_effect (SetTargetLang l) s = s\<lparr>targetLang := l\<rparr>"
| "apply_effect (SetIsLoading b) s = s\<lparr>isLoading := b\<rparr>"
| "apply_effect (SetError m) s = s\<lparr>error := m\<rparr>"
| "apply_effect (AxiosRequest r) s = s"
| "apply_effect (ConsoleError v) s = s"

text \<open>
  The state after the setter calls of a run, applied in order with no other event in
  between. Every setter call of the source passes a value, never an updater function.
\<close>

definition run :: "effect list \<Rightarrow> state \<Rightarrow> state" where
  "run es s = fold apply_effect es s"

text \<open>The network requests a run issues.\<close>

fun requests :: "effect list \<Rightarrow> request list" where
  "requests [] = []"
| "requests (AxiosRequest r # es) = r # requests es"
| "requests (_ # es) = requests es"


section \<open>The translation request handler\<close>

text \<open>
  The five failures the specification names, and the message the source shows for each.
\<close>

datatype failure =
    EmptyInput
  | MissingCredential
  | AuthorizationFailed
  | RateLimited
  | TranslationFailed

fun message :: "failure \<Rightarrow> jsstring" where
  "message EmptyInput = js ''Please enter some text to translate''"
| "message MissingCredential =
     js ''Missing RapidAPI key. Enter your key below and click Save, or add VITE_RAPIDAPI_KEY as a build secret.''"
| "message AuthorizationFailed =
     js ''Authorization failed (401/403). Ensure your RapidAPI key is valid and you are subscribed to text-translator2 (free plan)''"
| "message RateLimited = js ''Rate limit exceeded (429). Please wait and try again.''"
| "message TranslationFailed = js ''Failed to translate. Please try again later.''"

text \<open>How the promise of \<open>axios.request\<close> settles.\<close>

datatype outcome = Resolved jsval | Rejected jsval

datatype exn = TypeError

text \<open>
  The \<open>try\<close>/\<open>catch\<close>/\<open>finally\<close> of \<open>translateText\<close>, which runs once the awaited promise
  has settled.
\<close>

fun translateText_settle :: "outcome \<Rightarrow> effect list" where
  "translateText_settle (Resolved response) =
     [SetTranslatedText (or_else (translated_field response) (JStr (js ''''))),
      SetIsLoading False]"
| "translateText_settle (Rejected err) =
     [ConsoleError err,
      SetError
        (if strict_eq_num (response_status err) 401 \<or> strict_eq_num (response_status err) 403
         then message AuthorizationFailed
         else if strict_eq_num (response_status err) 429
         then message RateLimited
         else message TranslationFailed),
      SetIsLoading False]"

definition options :: "state \<Rightarrow> jsstring \<Rightarrow> request" where
  "options s t =
     \<lparr>req_method = js ''POST'',
      req_url = js ''https://text-translator2.p.rapidapi.com/translate'',
      req_headers =
        [(js ''content-type'', js ''application/x-www-form-urlencoded''),
         (js ''X-RapidAPI-Key'', apiKey s),
         (js ''X-RapidAPI-Host'', js ''text-translator2.p.rapidapi.com'')],
      req_data =
        [(js ''source_language'', sourceLang s),
         (js ''target_language'', targetLang s),
         (js ''text'', t)]\<rparr>"

text \<open>
  \<open>translateText\<close>, run in state \<open>s\<close>. The parameter \<open>axios\<close> says how the request
  settles, \<open>None\<close> when it never does. Calling \<open>trim\<close> on a value that is not a string
  throws before any effect.
\<close>

definition translateText :: "(request \<Rightarrow> outcome option) \<Rightarrow> state \<Rightarrow> exn + effect list" where
  "translateText axios s =
     (case inputText s of
        JStr t \<Rightarrow>
          if \<not> truthy (JStr (trim t)) then Inr [SetError (message EmptyInput)]
          else if \<not> truthy (JStr (apiKey s)) then Inr [SetError (message MissingCredential)]
          else Inr ([SetIsLoading True, SetError (js ''''), AxiosRequest (options s t)]
                    @ (case axios (options s t) of
                         None \<Rightarrow> []
                       | Some out \<Rightarrow> translateText_settle out))
      | _ \<Rightarrow> Inl TypeError)"

text \<open>\<open>swapLanguages\<close> and \<open>clearText\<close>\<close>

definition swapLanguages :: "state \<Rightarrow> effect list" where
  "swapLanguages s =
     [SetSourceLang (targetLang s),
      SetTargetLang (sourceLang s),
      SetInputText (translatedText s),
      SetTranslatedText (inputText s)]"

definition clearText :: "state \<Rightarrow> effect list" where
  "clearText s = [SetInputText (JStr (js '''')), SetTranslatedText (JStr (js '''')), SetError (js '''')]"

text \<open>
  The initial value of the \<open>apiKey\<close> cell:
  \<open>(import.meta.env.VITE_RAPIDAPI_KEY || localStorage.getItem('rapidapi_key') || '').trim()\<close>.
  The build-time value is a string or undefined, the stored one a string or null.
\<close>

definition or_nullable :: "jsstring option \<Rightarrow> jsstring option \<Rightarrow> jsstring option" where
  "or_nullable a b = (case a of Some t \<Rightarrow> (if t \<noteq> [] then Some t else b) | None \<Rightarrow> b)"

definition or_string :: "jsstring option \<Rightarrow> jsstring \<Rightarrow> jsstring" where
  "or_string a b = (case a of Some t \<Rightarrow> (if t \<noteq> [] then t else b) | None \<Rightarrow> b)"

definition initial_apiKey :: "jsstring option \<Rightarrow> jsstring option \<Rightarrow> jsstring" where
  "initial_apiKey env stored = trim (or_string (or_nullable env stored) (js ''''))"

text \<open>The state of the first render.\<close>

definition initial_state :: "jsstring option \<Rightarrow> jsstring option \<Rightarrow> state" where
  "initial_state env stored =
     \<lparr>inputText = JStr (js ''''),
      translatedText = JStr (js ''''),
      sourceLang = js ''en'',
      targetLang = js ''es'',
      isLoading = False,
      error = js '''',
      copied = False,
      apiKey = initial_apiKey env stored,
      tempKey = js ''''\<rparr>"

text \<open>The messages a run hands to \<open>setError\<close>, in order.\<close>

fun error_messages :: "effect list \<Rightarrow> jsstring list" where
  "error_messages [] = []"
| "error_messages (SetError m # es) = m # error_messages es"
| "error_messages (_ # es) = error_messages es"

section \<open>The specification's wording\<close>

text \<open>
  Failure classification as the specification words it: 401 or 403 is
  \<open>AuthorizationFailed\<close>, 429 is \<open>RateLimited\<close>, anything else is \<open>TranslationFailed\<close>.
\<close>

definition spec_classification :: "jsval \<Rightarrow> failure" where
  "spec_classification status =
     (if status = JNum (Finite 401) \<or> status = JNum (Finite 403) then AuthorizationFailed
      else if status = JNum (Finite 429) then RateLimited
      else TranslationFailed)"

text \<open>
  Credential sourcing as the specification words it: the build-time value if present, else
  the stored value if present, else the empty string. A source is taken as present when it
  is a non-empty string.
\<close>

definition spec_credential :: "jsstring option \<Rightarrow> jsstring option \<Rightarrow> jsstring" where
  "spec_credential env stored =
     (case env of
        Some e \<Rightarrow> if e \<noteq> [] then e
                  else (case stored of Some k \<Rightarrow> k | None \<Rightarrow> [])
      | None \<Rightarrow> (case stored of Some k \<Rightarrow> k | None \<Rightarrow> []))"


section \<open>Basic facts\<close>

lemma js_Nil: "js [] = []"
  by (simp add: js_def)

lemma trim_Nil_iff: "trim t = [] \<longleftrightarrow> (\<forall>c\<in>set t. is_whitespace c)"
proof
  assume "trim t = []"
  then have d: "dropWhile is_whitespace (rev (dropWhile is_whitespace t)) = []"
    by (simp add: trim_def)
  have "dropWhile is_whitespace t = []"
  proof (rule ccontr)
    assume ne: "dropWhile is_whitespace t \<noteq> []"
    then have "\<not> is_whitespace (hd (dropWhile is_whitespace t))"
      by (rule hd_dropWhile)
    moreover have "hd (dropWhile is_whitespace t) \<in> set (rev (dropWhile is_whitespace t))"
      using ne by simp
    ultimately show False
      using d by simp
  qed
  then show "\<forall>c\<in>set t. is_whitespace c"
    by simp
next
  assume "\<forall>c\<in>set t. is_whitespace c"
  then have e: "dropWhile is_whitespace t = []"
    by simp
  show "trim t = []"
    unfolding trim_def e by simp
qed

lemma message_inj: "message f = message g \<longleftrightarrow> f = g"
  by (cases f; cases g) (simp_all add: js_def)

lemma run_Nil: "run [] s = s"
  by (simp add: run_def)

lemma run_Cons: "run (e # es) s = run es (apply_effect e s)"
  by (simp add: run_def)

lemma run_append: "run (es @ fs) s = run fs (run es s)"
  by (simp add: run_def)

lemma translateText_blank:
  "inputText s = JStr t \<Longrightarrow> trim t = [] \<Longrightarrow>
   translateText axios s = Inr [SetError (message EmptyInput)]"
  by (simp add: translateText_def)

lemma translateText_no_key:
  "inputText s = JStr t \<Longrightarrow> trim t \<noteq> [] \<Longrightarrow> apiKey s = [] \<Longrightarrow>
   translateText axios s = Inr [SetError (message MissingCredential)]"
  by (simp add: translateText_def)

lemma translateText_pending:
  "inputText s = JStr t \<Longrightarrow> trim t \<noteq> [] \<Longrightarrow> apiKey s \<noteq> [] \<Longrightarrow>
   axios (options s t) = None \<Longrightarrow>
   translateText axios s =
     Inr [SetIsLoading True, SetError [], AxiosRequest (options s t)]"
  by (simp add: translateText_def js_Nil)

lemma translateText_settled:
  "inputText s = JStr t \<Longrightarrow> trim t \<noteq> [] \<Longrightarrow> apiKey s \<noteq> [] \<Longrightarrow>
   axios (options s t) = Some out \<Longrightarrow>
   translateText axios s =
     Inr ([SetIsLoading True, SetError [], AxiosRequest (options s t)] @ translateText_settle out)"
  by (simp add: translateText_def js_Nil)

lemma requests_settle: "requests (translateText_settle out) = []"
  by (cases out) simp_all

lemma isLoading_settle: "isLoading (run (translateText_settle out) s) = False"
  by (cases out) (simp_all add: run_Cons run_Nil)

lemma last_settle: "last (translateText_settle out) = SetIsLoading False"
  by (cases out) simp_all

lemma settle_not_Nil: "translateText_settle out \<noteq> []"
  by (cases out) simp_all


lemma settle_rejected_messages:
  "error_messages (translateText_settle (Rejected err))
     = [message (spec_classification (opt_get (opt_get err (js ''response'')) (js ''status'')))]"
  by (simp add: spec_classification_def strict_eq_num_def response_status_def)

lemma opt_get_JObj_Some: "map_of props k = Some v \<Longrightarrow> opt_get (JObj props) k = v"
  by simp

lemma opt_get_JObj_None: "map_of props k = None \<Longrightarrow> opt_get (JObj props) k = JUndefined"
  by simp

lemma truthy_iff:
  "truthy v \<longleftrightarrow> v \<notin> {JUndefined, JNull, JBool False, JNum NaN, JNum (Finite 0), JStr []}"
  by (cases v rule: truthy.cases) auto

lemma settle_resolved_output:
  "translatedText (run (translateText_settle (Resolved response)) s)
     = (if opt_get (opt_get (opt_get response (js ''data'')) (js ''data'')) (js ''translatedText'')
             \<in> {JUndefined, JNull, JBool False, JNum NaN, JNum (Finite 0), JStr []}
        then JStr []
        else opt_get (opt_get (opt_get response (js ''data'')) (js ''data'')) (js ''translatedText''))"
  by (simp add: run_Cons run_Nil or_else_def truthy_iff translated_field_def js_Nil
      del: insert_iff)


section \<open>Properties of the request handler\<close>

text \<open>
  C1. In every state whose input text is empty or only whitespace, \<open>translateText\<close>
  issues no network request and fails with \<open>EmptyInput\<close>: its only effect is to set
  the error message, the loading flag is never raised, and all other state is kept,
  whatever the other fields and the network are.
\<close>

theorem translateText_empty_input:
  assumes "inputText s = JStr t" and "\<forall>c\<in>set t. is_whitespace c"
  shows "\<exists>es. translateText axios s = Inr es
            \<and> es = [SetError (message EmptyInput)]
            \<and> requests es = []
            \<and> SetIsLoading True \<notin> set es
            \<and> run es s = s\<lparr>error := message EmptyInput\<rparr>"
proof -
  from assms(2) have "trim t = []"
    by (simp add: trim_Nil_iff)
  with assms(1) have "translateText axios s = Inr [SetError (message EmptyInput)]"
    by (rule translateText_blank)
  then show ?thesis
    by (simp add: run_Cons run_Nil)
qed

theorem translateText_empty_input_witness:
  "inputText (initial_state None None\<lparr>inputText := JStr [0x20, 0x09, 0x3000]\<rparr>)
     = JStr [0x20, 0x09, 0x3000]
   \<and> is_whitespace 0x20 \<and> is_whitespace 0x09 \<and> is_whitespace 0x3000
   \<and> (\<exists>es. translateText (\<lambda>r. None) (initial_state None None\<lparr>inputText := JStr [0x20, 0x09, 0x3000]\<rparr>) = Inr es
            \<and> es = [SetError (message EmptyInput)]
            \<and> requests es = []
            \<and> SetIsLoading True \<notin> set es
            \<and> run es (initial_state None None\<lparr>inputText := JStr [0x20, 0x09, 0x3000]\<rparr>)
                = initial_state None None\<lparr>inputText := JStr [0x20, 0x09, 0x3000], error := message EmptyInput\<rparr>)"
proof -
  have h1: "inputText (initial_state None None\<lparr>inputText := JStr [0x20, 0x09, 0x3000]\<rparr>)
     = JStr [0x20, 0x09, 0x3000]"
    by simp
  have h2: "\<forall>c\<in>set [0x20, 0x09, 0x3000]. is_whitespace c"
    by (simp add: is_whitespace_def)
  have h3: "is_whitespace 0x20 \<and> is_whitespace 0x09 \<and> is_whitespace 0x3000"
    by (simp add: is_whitespace_def)
  show ?thesis
    using h1 h3 translateText_empty_input [OF h1 h2, of "\<lambda>r. None"] by simp
qed

text \<open>
  C2. In every state whose trimmed input text is non-empty and whose credential is the
  empty string, \<open>translateText\<close> issues no network request and fails with
  \<open>MissingCredential\<close>: its only effect is to set that error message.
\<close>

theorem translateText_missing_credential:
  assumes "inputText s = JStr t" and "trim t \<noteq> []" and "apiKey s = []"
  shows "\<exists>es. translateText axios s = Inr es
            \<and> es = [SetError (message MissingCredential)]
            \<and> requests es = []
            \<and> run es s = s\<lparr>error := message MissingCredential\<rparr>"
proof -
  have "translateText axios s = Inr [SetError (message MissingCredential)]"
    using assms by (rule translateText_no_key)
  then show ?thesis
    by (simp add: run_Cons run_Nil)
qed

theorem translateText_missing_credential_witness:
  "inputText (initial_state None None\<lparr>inputText := JStr (js ''Hello'')\<rparr>) = JStr (js ''Hello'')
   \<and> trim (js ''Hello'') \<noteq> []
   \<and> apiKey (initial_state None None\<lparr>inputText := JStr (js ''Hello'')\<rparr>) = []
   \<and> (\<exists>es. translateText (\<lambda>r. Some (Resolved JNull))
               (initial_state None None\<lparr>inputText := JStr (js ''Hello'')\<rparr>) = Inr es
            \<and> es = [SetError (message MissingCredential)]
            \<and> requests es = []
            \<and> run es (initial_state None None\<lparr>inputText := JStr (js ''Hello'')\<rparr>)
                = initial_state None None
                    \<lparr>inputText := JStr (js ''Hello''), error := message MissingCredential\<rparr>)"
proof -
  have h1: "inputText (initial_state None None\<lparr>inputText := JStr (js ''Hello'')\<rparr>)
              = JStr (js ''Hello'')"
    by simp
  have h2: "trim (js ''Hello'') \<noteq> []"
    by (simp add: trim_def js_def is_whitespace_def)
  have h3: "apiKey (initial_state None None\<lparr>inputText := JStr (js ''Hello'')\<rparr>) = []"
    by (simp add: initial_state_def initial_apiKey_def or_string_def or_nullable_def
        trim_def js_def)
  show ?thesis
    using h1 h2 h3
      translateText_missing_credential [OF h1 h2 h3, of "\<lambda>r. Some (Resolved JNull)"]
    by simp
qed

text \<open>
  C3. For every rejected request the failure shown is a function of the HTTP status
  alone, the property \<open>status\<close> of the property \<open>response\<close> of the error: 401 or 403
  gives \<open>AuthorizationFailed\<close>, 429 gives \<open>RateLimited\<close>, and anything else, a
  rejection without a response or without a status included, gives \<open>TranslationFailed\<close>.
  Exactly one message is set by the handler after the dispatch, and it stands for exactly
  one failure.
\<close>

theorem failure_classification:
  "error_messages (translateText_settle (Rejected err))
     = [message (spec_classification (opt_get (opt_get err (js ''response'')) (js ''status'')))]
   \<and> (\<forall>f. message f \<in> set (error_messages (translateText_settle (Rejected err)))
            \<longleftrightarrow> f = spec_classification (opt_get (opt_get err (js ''response'')) (js ''status'')))
   \<and> (\<forall>s. error (run (translateText_settle (Rejected err)) s)
            = message (spec_classification (opt_get (opt_get err (js ''response'')) (js ''status''))))
   \<and> (opt_get (opt_get err (js ''response'')) (js ''status'') = JNum (Finite 401)
        \<or> opt_get (opt_get err (js ''response'')) (js ''status'') = JNum (Finite 403)
        \<longrightarrow> error_messages (translateText_settle (Rejected err)) = [message AuthorizationFailed])
   \<and> (opt_get (opt_get err (js ''response'')) (js ''status'') = JNum (Finite 429)
        \<longrightarrow> error_messages (translateText_settle (Rejected err)) = [message RateLimited])
   \<and> (opt_get (opt_get err (js ''response'')) (js ''status'') \<noteq> JNum (Finite 401)
        \<and> opt_get (opt_get err (js ''response'')) (js ''status'') \<noteq> JNum (Finite 403)
        \<and> opt_get (opt_get err (js ''response'')) (js ''status'') \<noteq> JNum (Finite 429)
        \<longrightarrow> error_messages (translateText_settle (Rejected err)) = [message TranslationFailed])
   \<and> (\<forall>props rprops st. err = JObj props
          \<and> map_of props (js ''response'') = Some (JObj rprops)
          \<and> map_of rprops (js ''status'') = Some st
        \<longrightarrow> error_messages (translateText_settle (Rejected err))
              = [message (spec_classification st)])
   \<and> (opt_get err (js ''response'') = JUndefined
        \<longrightarrow> error_messages (translateText_settle (Rejected err)) = [message TranslationFailed])
   \<and> (\<forall>s t axios. inputText s = JStr t \<and> trim t \<noteq> [] \<and> apiKey s \<noteq> []
          \<and> axios (options s t) = Some (Rejected err)
        \<longrightarrow> (\<exists>es. translateText axios s = Inr es
               \<and> error_messages es
                   = [[], message (spec_classification
                                     (opt_get (opt_get err (js ''response'')) (js ''status'')))]
               \<and> error (run es s)
                   = message (spec_classification
                                (opt_get (opt_get err (js ''response'')) (js ''status'')))))"
proof -
  let ?st = "opt_get (opt_get err (js ''response'')) (js ''status'')"
  let ?ms = "error_messages (translateText_settle (Rejected err))"
  have m: "?ms = [message (spec_classification ?st)]"
    by (rule settle_rejected_messages)
  have x: "message f \<in> set ?ms \<longleftrightarrow> f = spec_classification ?st" for f
    by (simp only: m message_inj list.set insert_iff empty_iff simp_thms)
  have e: "error (run (translateText_settle (Rejected err)) s)
             = message (spec_classification ?st)" for s
    by (simp add: spec_classification_def strict_eq_num_def response_status_def run_Cons run_Nil)
  have c1: "?st = JNum (Finite 401) \<or> ?st = JNum (Finite 403)
        \<longrightarrow> ?ms = [message AuthorizationFailed]"
    by (simp only: m) (auto simp add: spec_classification_def)
  have c2: "?st = JNum (Finite 429) \<longrightarrow> ?ms = [message RateLimited]"
    by (simp only: m) (simp add: spec_classification_def)
  have c3: "?st \<noteq> JNum (Finite 401) \<and> ?st \<noteq> JNum (Finite 403) \<and> ?st \<noteq> JNum (Finite 429)
        \<longrightarrow> ?ms = [message TranslationFailed]"
    by (simp only: m) (simp add: spec_classification_def)
  have o: "?ms = [message (spec_classification st)]"
    if "err = JObj props \<and> map_of props (js ''response'') = Some (JObj rprops)
          \<and> map_of rprops (js ''status'') = Some st" for props rprops st
  proof -
    from that have "?st = st"
      by (simp only: opt_get_JObj_Some)
    with m show ?thesis
      by (simp only:)
  qed
  have u: "opt_get err (js ''response'') = JUndefined \<longrightarrow> ?ms = [message TranslationFailed]"
    by (simp only: m) (simp add: spec_classification_def)
  have w: "\<exists>es. translateText axios s = Inr es
               \<and> error_messages es = [[], message (spec_classification ?st)]
               \<and> error (run es s) = message (spec_classification ?st)"
    if "inputText s = JStr t \<and> trim t \<noteq> [] \<and> apiKey s \<noteq> []
          \<and> axios (options s t) = Some (Rejected err)" for s t axios
  proof -
    from that have "translateText axios s =
        Inr ([SetIsLoading True, SetError [], AxiosRequest (options s t)]
             @ translateText_settle (Rejected err))"
      by (blast intro: translateText_settled)
    moreover have "error (run ([SetIsLoading True, SetError [], AxiosRequest (options s t)]
             @ translateText_settle (Rejected err)) s)
          = message (spec_classification ?st)"
      by (simp only: run_append e)
    moreover have "error_messages ([SetIsLoading True, SetError [], AxiosRequest (options s t)]
             @ translateText_settle (Rejected err)) = [] # ?ms"
      by simp
    ultimately show ?thesis
      using m by (simp only:) blast
  qed
  show ?thesis
    using m x e c1 c2 c3 o u w by blast
qed

theorem failure_classification_witness:
  "error_messages (translateText_settle (Rejected
      (JObj [(js ''message'', JStr (js ''Request failed with status code 403'')),
             (js ''code'', JStr (js ''ERR_BAD_REQUEST'')),
             (js ''response'',
                JObj [(js ''data'', JObj [(js ''message'', JStr (js ''not subscribed''))]),
                      (js ''status'', JNum (Finite 403)),
                      (js ''statusText'', JStr (js ''Forbidden''))])])))
     = [message AuthorizationFailed]
   \<and> error_messages (translateText_settle (Rejected
      (JObj [(js ''code'', JStr (js ''ERR_BAD_REQUEST'')),
             (js ''response'',
                JObj [(js ''data'', JNull), (js ''status'', JNum (Finite 429))])])))
     = [message RateLimited]
   \<and> error_messages (translateText_settle (Rejected
      (JObj [(js ''code'', JStr (js ''ERR_BAD_RESPONSE'')),
             (js ''response'',
                JObj [(js ''data'', JNull), (js ''status'', JNum (Finite 500))])])))
     = [message TranslationFailed]
   \<and> error_messages (translateText_settle (Rejected
      (JObj [(js ''response'',
                JObj [(js ''data'', JNum (Finite 401)), (js ''code'', JNum (Finite 429))])])))
     = [message TranslationFailed]
   \<and> error_messages (translateText_settle (Rejected
      (JObj [(js ''response'', JObj [(js ''status'', JStr (js ''401''))])])))
     = [message TranslationFailed]
   \<and> opt_get (JObj [(js ''message'', JStr (js ''Network Error'')),
                     (js ''code'', JStr (js ''ERR_NETWORK''))]) (js ''response'') = JUndefined
   \<and> error_messages (translateText_settle (Rejected
      (JObj [(js ''message'', JStr (js ''Network Error'')),
             (js ''code'', JStr (js ''ERR_NETWORK''))])))
     = [message TranslationFailed]
   \<and> inputText (initial_state (Some (js ''key'')) None\<lparr>inputText := JStr (js ''Hello'')\<rparr>)
       = JStr (js ''Hello'')
   \<and> trim (js ''Hello'') \<noteq> []
   \<and> apiKey (initial_state (Some (js ''key'')) None\<lparr>inputText := JStr (js ''Hello'')\<rparr>) \<noteq> []
   \<and> (\<exists>es. translateText
               (\<lambda>r. Some (Rejected
                  (JObj [(js ''code'', JStr (js ''ERR_BAD_REQUEST'')),
                         (js ''response'',
                            JObj [(js ''data'', JNull), (js ''status'', JNum (Finite 401))])])))
               (initial_state (Some (js ''key'')) None\<lparr>inputText := JStr (js ''Hello'')\<rparr>) = Inr es
          \<and> error_messages es = [[], message AuthorizationFailed]
          \<and> error (run es (initial_state (Some (js ''key'')) None\<lparr>inputText := JStr (js ''Hello'')\<rparr>))
              = message AuthorizationFailed)"
proof -
  let ?e403 = "JObj [(js ''message'', JStr (js ''Request failed with status code 403'')),
             (js ''code'', JStr (js ''ERR_BAD_REQUEST'')),
             (js ''response'',
                JObj [(js ''data'', JObj [(js ''message'', JStr (js ''not subscribed''))]),
                      (js ''status'', JNum (Finite 403)),
                      (js ''statusText'', JStr (js ''Forbidden''))])]"
  let ?e429 = "JObj [(js ''code'', JStr (js ''ERR_BAD_REQUEST'')),
             (js ''response'',
                JObj [(js ''data'', JNull), (js ''status'', JNum (Finite 429))])]"
  let ?e500 = "JObj [(js ''code'', JStr (js ''ERR_BAD_RESPONSE'')),
             (js ''response'',
                JObj [(js ''data'', JNull), (js ''status'', JNum (Finite 500))])]"
  let ?edecoy = "JObj [(js ''response'',
                JObj [(js ''data'', JNum (Finite 401)), (js ''code'', JNum (Finite 429))])]"
  let ?estr = "JObj [(js ''response'', JObj [(js ''status'', JStr (js ''401''))])]"
  let ?enet = "JObj [(js ''message'', JStr (js ''Network Error'')),
                     (js ''code'', JStr (js ''ERR_NETWORK''))]"
  let ?e401 = "JObj [(js ''code'', JStr (js ''ERR_BAD_REQUEST'')),
                         (js ''response'',
                            JObj [(js ''data'', JNull), (js ''status'', JNum (Finite 401))])]"
  let ?s = "initial_state (Some (js ''key'')) None\<lparr>inputText := JStr (js ''Hello'')\<rparr>"
  have s403: "opt_get (opt_get ?e403 (js ''response'')) (js ''status'') = JNum (Finite 403)"
    by (simp add: js_def)
  have s429: "opt_get (opt_get ?e429 (js ''response'')) (js ''status'') = JNum (Finite 429)"
    by (simp add: js_def)
  have s500: "opt_get (opt_get ?e500 (js ''response'')) (js ''status'') = JNum (Finite 500)"
    by (simp add: js_def)
  have sdecoy: "opt_get (opt_get ?edecoy (js ''response'')) (js ''status'') = JUndefined"
    by (simp add: js_def)
  have sstr: "opt_get (opt_get ?estr (js ''response'')) (js ''status'') = JStr (js ''401'')"
    by (simp add: js_def)
  have snet: "opt_get ?enet (js ''response'') = JUndefined"
    by (simp add: js_def)
  have s401: "opt_get (opt_get ?e401 (js ''response'')) (js ''status'') = JNum (Finite 401)"
    by (simp add: js_def)
  have p403: "error_messages (translateText_settle (Rejected ?e403)) = [message AuthorizationFailed]"
    using failure_classification
      [of ?e403, THEN conjunct2, THEN conjunct2, THEN conjunct2, THEN conjunct1]
    by (simp only: s403 simp_thms)
  have p429: "error_messages (translateText_settle (Rejected ?e429)) = [message RateLimited]"
    using failure_classification
      [of ?e429, THEN conjunct2, THEN conjunct2, THEN conjunct2, THEN conjunct2, THEN conjunct1]
    by (simp only: s429 simp_thms)
  have n500: "JNum (Finite 500) \<noteq> JNum (Finite 401) \<and> JNum (Finite 500) \<noteq> JNum (Finite 403)
      \<and> JNum (Finite 500) \<noteq> JNum (Finite 429)"
    by simp
  have p500: "error_messages (translateText_settle (Rejected ?e500)) = [message TranslationFailed]"
    using failure_classification
      [of ?e500, THEN conjunct2, THEN conjunct2, THEN conjunct2, THEN conjunct2, THEN conjunct2,
       THEN conjunct1] n500
    by (simp only: s500 simp_thms)
  have ndecoy: "JUndefined \<noteq> JNum (Finite 401) \<and> JUndefined \<noteq> JNum (Finite 403)
      \<and> JUndefined \<noteq> JNum (Finite 429)"
    by simp
  have pdecoy: "error_messages (translateText_settle (Rejected ?edecoy)) = [message TranslationFailed]"
    using failure_classification
      [of ?edecoy, THEN conjunct2, THEN conjunct2, THEN conjunct2, THEN conjunct2, THEN conjunct2,
       THEN conjunct1] ndecoy
    by (simp only: sdecoy simp_thms)
  have nstr: "JStr (js ''401'') \<noteq> JNum (Finite 401) \<and> JStr (js ''401'') \<noteq> JNum (Finite 403)
      \<and> JStr (js ''401'') \<noteq> JNum (Finite 429)"
    by simp
  have pstr: "error_messages (translateText_settle (Rejected ?estr)) = [message TranslationFailed]"
    using failure_classification
      [of ?estr, THEN conjunct2, THEN conjunct2, THEN conjunct2, THEN conjunct2, THEN conjunct2,
       THEN conjunct1] nstr
    by (simp only: sstr simp_thms)
  have pnet: "error_messages (translateText_settle (Rejected ?enet)) = [message TranslationFailed]"
    using failure_classification
      [of ?enet, THEN conjunct2, THEN conjunct2, THEN conjunct2, THEN conjunct2, THEN conjunct2,
       THEN conjunct2, THEN conjunct2, THEN conjunct1]
    by (simp only: snet simp_thms)
  have h1: "inputText ?s = JStr (js ''Hello'')"
    by simp
  have h2: "trim (js ''Hello'') \<noteq> []"
    by (simp add: trim_def js_def is_whitespace_def)
  have h3: "apiKey ?s \<noteq> []"
    by (simp add: initial_state_def initial_apiKey_def or_string_def or_nullable_def
        trim_def js_def is_whitespace_def)
  have c401: "spec_classification (JNum (Finite 401)) = AuthorizationFailed"
    by (simp add: spec_classification_def)
  have a: "(\<lambda>r. Some (Rejected ?e401)) (options ?s (js ''Hello'')) = Some (Rejected ?e401)"
    by simp
  have hyp: "inputText ?s = JStr (js ''Hello'') \<and> trim (js ''Hello'') \<noteq> [] \<and> apiKey ?s \<noteq> []
      \<and> (\<lambda>r. Some (Rejected ?e401)) (options ?s (js ''Hello'')) = Some (Rejected ?e401)"
    by (intro conjI h1 h2 h3 a)
  have w: "\<exists>es. translateText (\<lambda>r. Some (Rejected ?e401)) ?s = Inr es
          \<and> error_messages es = [[], message AuthorizationFailed]
          \<and> error (run es ?s) = message AuthorizationFailed"
    using failure_classification
      [of ?e401, THEN conjunct2, THEN conjunct2, THEN conjunct2, THEN conjunct2, THEN conjunct2,
       THEN conjunct2, THEN conjunct2, THEN conjunct2, rule_format, OF hyp]
    by (simp only: s401 c401)
  show ?thesis
    by (intro conjI p403 p429 p500 pdecoy pstr snet pnet h1 h2 h3 w)
qed

text \<open>
  C4, as the code has it. When the request resolves, the displayed output is the field
  \<open>translatedText\<close> of the property \<open>data\<close> of the property \<open>data\<close> of the response
  whenever that field is truthy, so for every non-empty string; when the field is absent
  or falsy (undefined, null, false, 0, NaN, the empty string) the displayed output is the
  empty string. Exactly one request is issued and no error is produced: the only message
  set is the empty one of the dispatch.
\<close>

theorem translateText_success:
  assumes "inputText s = JStr t" and "trim t \<noteq> []" and "apiKey s \<noteq> []"
    and "axios (options s t) = Some (Resolved response)"
  shows "\<exists>es. translateText axios s = Inr es
            \<and> translatedText (run es s)
                = (if opt_get (opt_get (opt_get response (js ''data'')) (js ''data''))
                         (js ''translatedText'')
                       \<in> {JUndefined, JNull, JBool False, JNum NaN, JNum (Finite 0), JStr []}
                   then JStr []
                   else opt_get (opt_get (opt_get response (js ''data'')) (js ''data''))
                          (js ''translatedText''))
            \<and> (\<forall>x. opt_get (opt_get (opt_get response (js ''data'')) (js ''data''))
                      (js ''translatedText'') = JStr x
                    \<longrightarrow> translatedText (run es s) = JStr x)
            \<and> (opt_get (opt_get (opt_get response (js ''data'')) (js ''data''))
                      (js ''translatedText'') = JUndefined
                    \<longrightarrow> translatedText (run es s) = JStr [])
            \<and> (\<forall>p1 p2 p3 v. response = JObj p1
                    \<and> map_of p1 (js ''data'') = Some (JObj p2)
                    \<and> map_of p2 (js ''data'') = Some (JObj p3)
                    \<and> map_of p3 (js ''translatedText'') = Some v
                  \<longrightarrow> translatedText (run es s)
                        = (if v \<in> {JUndefined, JNull, JBool False, JNum NaN, JNum (Finite 0), JStr []}
                           then JStr [] else v))
            \<and> (\<forall>p1 p2 p3. response = JObj p1
                    \<and> map_of p1 (js ''data'') = Some (JObj p2)
                    \<and> map_of p2 (js ''data'') = Some (JObj p3)
                    \<and> map_of p3 (js ''translatedText'') = None
                  \<longrightarrow> translatedText (run es s) = JStr [])
            \<and> requests es = [options s t]
            \<and> error_messages es = [[]]
            \<and> error (run es s) = []"
proof -
  let ?F = "opt_get (opt_get (opt_get response (js ''data'')) (js ''data'')) (js ''translatedText'')"
  let ?falsy = "{JUndefined, JNull, JBool False, JNum NaN, JNum (Finite 0), JStr []}"
  let ?es = "[SetIsLoading True, SetError [], AxiosRequest (options s t)]
               @ translateText_settle (Resolved response)"
  have r: "translateText axios s = Inr ?es"
    using assms by (rule translateText_settled)
  have o: "translatedText (run ?es s) = (if ?F \<in> ?falsy then JStr [] else ?F)"
    by (simp only: run_append settle_resolved_output)
  have s1: "translatedText (run ?es s) = JStr x" if "?F = JStr x" for x
    using that by (cases "x = []") (simp_all only: o, simp_all)
  have s2: "?F = JUndefined \<longrightarrow> translatedText (run ?es s) = JStr []"
    by (simp only: o) simp
  have s3: "translatedText (run ?es s) = (if v \<in> ?falsy then JStr [] else v)"
    if "response = JObj p1 \<and> map_of p1 (js ''data'') = Some (JObj p2)
          \<and> map_of p2 (js ''data'') = Some (JObj p3)
          \<and> map_of p3 (js ''translatedText'') = Some v" for p1 p2 p3 v
  proof -
    from that have "?F = v"
      by (simp only: opt_get_JObj_Some)
    with o show ?thesis
      by (simp only:)
  qed
  have s4: "translatedText (run ?es s) = JStr []"
    if "response = JObj p1 \<and> map_of p1 (js ''data'') = Some (JObj p2)
          \<and> map_of p2 (js ''data'') = Some (JObj p3)
          \<and> map_of p3 (js ''translatedText'') = None" for p1 p2 p3
  proof -
    from that have "?F = JUndefined"
      by (simp only: opt_get_JObj_Some opt_get_JObj_None)
    with s2 show ?thesis
      by (simp only:)
  qed
  have q: "requests ?es = [options s t]"
    by (simp add: requests_settle)
  have m: "error_messages ?es = [[]]"
    by simp
  have e: "error (run ?es s) = []"
    by (simp add: run_Cons run_Nil)
  show ?thesis
    using r o s1 s2 s3 s4 q m e by blast
qed

theorem translateText_success_witness:
  "inputText (initial_state (Some (js ''key'')) None\<lparr>inputText := JStr (js ''Hello'')\<rparr>)
       = JStr (js ''Hello'')
   \<and> trim (js ''Hello'') \<noteq> []
   \<and> apiKey (initial_state (Some (js ''key'')) None\<lparr>inputText := JStr (js ''Hello'')\<rparr>) \<noteq> []
   \<and> opt_get (opt_get (opt_get
         (JObj [(js ''status'', JNum (Finite 200)),
                (js ''data'',
                   JObj [(js ''status'', JStr (js ''success'')),
                         (js ''data'',
                            JObj [(js ''detectedSourceLanguage'', JStr (js ''en'')),
                                  (js ''translatedText'', JStr (js ''Hola''))])])])
         (js ''data'')) (js ''data'')) (js ''translatedText'') = JStr (js ''Hola'')
   \<and> (\<exists>es. translateText
               (\<lambda>r. Some (Resolved
                  (JObj [(js ''status'', JNum (Finite 200)),
                         (js ''data'',
                            JObj [(js ''status'', JStr (js ''success'')),
                                  (js ''data'',
                                     JObj [(js ''detectedSourceLanguage'', JStr (js ''en'')),
                                           (js ''translatedText'', JStr (js ''Hola''))])])])))
               (initial_state (Some (js ''key'')) None\<lparr>inputText := JStr (js ''Hello'')\<rparr>) = Inr es
          \<and> translatedText
               (run es (initial_state (Some (js ''key'')) None\<lparr>inputText := JStr (js ''Hello'')\<rparr>))
              = JStr (js ''Hola'')
          \<and> error_messages es = [[]]
          \<and> error (run es (initial_state (Some (js ''key'')) None\<lparr>inputText := JStr (js ''Hello'')\<rparr>))
              = [])
   \<and> opt_get (opt_get (opt_get
         (JObj [(js ''foo'', JObj [(js ''bar'', JObj [(js ''baz'', JStr (js ''Hola''))])])])
         (js ''data'')) (js ''data'')) (js ''translatedText'') = JUndefined
   \<and> (\<exists>es. translateText
               (\<lambda>r. Some (Resolved
                  (JObj [(js ''foo'', JObj [(js ''bar'', JObj [(js ''baz'', JStr (js ''Hola''))])])])))
               (initial_state (Some (js ''key'')) None\<lparr>inputText := JStr (js ''Hello'')\<rparr>) = Inr es
          \<and> translatedText
               (run es (initial_state (Some (js ''key'')) None\<lparr>inputText := JStr (js ''Hello'')\<rparr>))
              = JStr []
          \<and> error_messages es = [[]]
          \<and> error (run es (initial_state (Some (js ''key'')) None\<lparr>inputText := JStr (js ''Hello'')\<rparr>))
              = [])
   \<and> (\<exists>es. translateText
               (\<lambda>r. Some (Resolved
                  (JObj [(js ''status'', JNum (Finite 200)),
                         (js ''data'',
                            JObj [(js ''status'', JStr (js ''success'')),
                                  (js ''data'', JObj [(js ''translatedText'', JBool False)])])])))
               (initial_state (Some (js ''key'')) None\<lparr>inputText := JStr (js ''Hello'')\<rparr>) = Inr es
          \<and> translatedText
               (run es (initial_state (Some (js ''key'')) None\<lparr>inputText := JStr (js ''Hello'')\<rparr>))
              = JStr []
          \<and> error_messages es = [[]])"
proof -
  let ?S = "initial_state (Some (js ''key'')) None\<lparr>inputText := JStr (js ''Hello'')\<rparr>"
  let ?hola = "JObj [(js ''status'', JNum (Finite 200)),
                (js ''data'',
                   JObj [(js ''status'', JStr (js ''success'')),
                         (js ''data'',
                            JObj [(js ''detectedSourceLanguage'', JStr (js ''en'')),
                                  (js ''translatedText'', JStr (js ''Hola''))])])]"
  let ?decoy = "JObj [(js ''foo'', JObj [(js ''bar'', JObj [(js ''baz'', JStr (js ''Hola''))])])]"
  let ?false = "JObj [(js ''status'', JNum (Finite 200)),
                         (js ''data'',
                            JObj [(js ''status'', JStr (js ''success'')),
                                  (js ''data'', JObj [(js ''translatedText'', JBool False)])])]"
  have h1: "inputText ?S = JStr (js ''Hello'')"
    by simp
  have h2: "trim (js ''Hello'') \<noteq> []"
    by (simp add: trim_def js_def is_whitespace_def)
  have h3: "apiKey ?S \<noteq> []"
    by (simp add: initial_state_def initial_apiKey_def or_string_def or_nullable_def
        trim_def js_def is_whitespace_def)
  have f1: "opt_get (opt_get (opt_get ?hola (js ''data'')) (js ''data'')) (js ''translatedText'')
              = JStr (js ''Hola'')"
    by (simp add: js_def)
  have f2: "opt_get (opt_get (opt_get ?decoy (js ''data'')) (js ''data'')) (js ''translatedText'')
              = JUndefined"
    by (simp add: js_def)
  have f3: "opt_get (opt_get (opt_get ?false (js ''data'')) (js ''data'')) (js ''translatedText'')
              = JBool False"
    by (simp add: js_def)
  have a1: "(\<lambda>r. Some (Resolved ?hola)) (options ?S (js ''Hello'')) = Some (Resolved ?hola)"
    by simp
  have a2: "(\<lambda>r. Some (Resolved ?decoy)) (options ?S (js ''Hello'')) = Some (Resolved ?decoy)"
    by simp
  have a3: "(\<lambda>r. Some (Resolved ?false)) (options ?S (js ''Hello'')) = Some (Resolved ?false)"
    by simp
  have w1: "\<exists>es. translateText (\<lambda>r. Some (Resolved ?hola)) ?S = Inr es
          \<and> translatedText (run es ?S) = JStr (js ''Hola'')
          \<and> error_messages es = [[]]
          \<and> error (run es ?S) = []"
    using translateText_success [where axios = "\<lambda>r. Some (Resolved ?hola)", OF h1 h2 h3 a1]
    unfolding f1 by auto
  have w2: "\<exists>es. translateText (\<lambda>r. Some (Resolved ?decoy)) ?S = Inr es
          \<and> translatedText (run es ?S) = JStr []
          \<and> error_messages es = [[]]
          \<and> error (run es ?S) = []"
    using translateText_success [where axios = "\<lambda>r. Some (Resolved ?decoy)", OF h1 h2 h3 a2]
    unfolding f2 by auto
  have w3: "\<exists>es. translateText (\<lambda>r. Some (Resolved ?false)) ?S = Inr es
          \<and> translatedText (run es ?S) = JStr []
          \<and> error_messages es = [[]]"
    using translateText_success [where axios = "\<lambda>r. Some (Resolved ?false)", OF h1 h2 h3 a3]
    unfolding f3 by auto
  show ?thesis
    by (intro conjI h1 h2 h3 f1 w1 f2 w2 w3)
qed

text \<open>
  The displayed output is not always the field: a response whose field is the number 0
  displays the empty string.
\<close>

theorem translateText_success_falsy_field:
  "opt_get (opt_get (opt_get
       (JObj [(js ''status'', JNum (Finite 200)),
              (js ''data'', JObj [(js ''status'', JStr (js ''success'')),
                                  (js ''data'', JObj [(js ''translatedText'', JNum (Finite 0))])])])
       (js ''data'')) (js ''data'')) (js ''translatedText'') = JNum (Finite 0)
   \<and> translateText
        (map_of
          [(options \<lparr>inputText = JStr (js ''Hello''), translatedText = JStr (js ''old''),
                     sourceLang = js ''en'', targetLang = js ''es'', isLoading = False,
                     error = [], copied = False, apiKey = js ''key'', tempKey = []\<rparr>
              (js ''Hello''),
            Resolved
              (JObj [(js ''status'', JNum (Finite 200)),
                     (js ''data'', JObj [(js ''status'', JStr (js ''success'')),
                                         (js ''data'', JObj [(js ''translatedText'', JNum (Finite 0))])])]))])
        \<lparr>inputText = JStr (js ''Hello''), translatedText = JStr (js ''old''),
         sourceLang = js ''en'', targetLang = js ''es'', isLoading = False,
         error = [], copied = False, apiKey = js ''key'', tempKey = []\<rparr>
      = Inr [SetIsLoading True, SetError [],
             AxiosRequest
               (options \<lparr>inputText = JStr (js ''Hello''), translatedText = JStr (js ''old''),
                         sourceLang = js ''en'', targetLang = js ''es'', isLoading = False,
                         error = [], copied = False, apiKey = js ''key'', tempKey = []\<rparr>
                  (js ''Hello'')),
             SetTranslatedText (JStr []), SetIsLoading False]
   \<and> translatedText
        (run [SetIsLoading True, SetError [],
              AxiosRequest
                (options \<lparr>inputText = JStr (js ''Hello''), translatedText = JStr (js ''old''),
                          sourceLang = js ''en'', targetLang = js ''es'', isLoading = False,
                          error = [], copied = False, apiKey = js ''key'', tempKey = []\<rparr>
                   (js ''Hello'')),
              SetTranslatedText (JStr []), SetIsLoading False]
           \<lparr>inputText = JStr (js ''Hello''), translatedText = JStr (js ''old''),
            sourceLang = js ''en'', targetLang = js ''es'', isLoading = False,
            error = [], copied = False, apiKey = js ''key'', tempKey = []\<rparr>)
      = JStr []
   \<and> JStr [] \<noteq> JNum (Finite 0)"
proof -
  let ?R = "JObj [(js ''status'', JNum (Finite 200)),
              (js ''data'', JObj [(js ''status'', JStr (js ''success'')),
                                  (js ''data'', JObj [(js ''translatedText'', JNum (Finite 0))])])]"
  let ?S = "\<lparr>inputText = JStr (js ''Hello''), translatedText = JStr (js ''old''),
                     sourceLang = js ''en'', targetLang = js ''es'', isLoading = False,
                     error = [], copied = False, apiKey = js ''key'', tempKey = []\<rparr>"
  have f: "opt_get (opt_get (opt_get ?R (js ''data'')) (js ''data'')) (js ''translatedText'')
             = JNum (Finite 0)"
    by (simp add: js_def)
  have h1: "inputText ?S = JStr (js ''Hello'')"
    by simp
  have h2: "trim (js ''Hello'') \<noteq> []"
    by (simp add: trim_def js_def is_whitespace_def)
  have h3: "apiKey ?S \<noteq> []"
    by (simp add: js_def)
  have a: "map_of [(options ?S (js ''Hello''), Resolved ?R)] (options ?S (js ''Hello''))
             = Some (Resolved ?R)"
    by simp
  have t: "translateText_settle (Resolved ?R) = [SetTranslatedText (JStr []), SetIsLoading False]"
    using f by (simp add: translated_field_def or_else_def js_Nil)
  have r: "translateText (map_of [(options ?S (js ''Hello''), Resolved ?R)]) ?S
      = Inr [SetIsLoading True, SetError [], AxiosRequest (options ?S (js ''Hello'')),
             SetTranslatedText (JStr []), SetIsLoading False]"
    using translateText_settled
      [where axios = "map_of [(options ?S (js ''Hello''), Resolved ?R)]", OF h1 h2 h3 a]
    by (simp only: t append.simps)
  have o: "translatedText
        (run [SetIsLoading True, SetError [], AxiosRequest (options ?S (js ''Hello'')),
              SetTranslatedText (JStr []), SetIsLoading False] ?S) = JStr []"
    by (simp add: run_Cons run_Nil)
  have n: "JStr [] \<noteq> JNum (Finite 0)"
    by simp
  show ?thesis
    by (intro conjI f r o n)
qed

text \<open>
  C5. For every dispatched request and every way it settles, resolved or rejected with
  any value, the run issues exactly that one request, its last effect is
  \<open>setIsLoading(false)\<close> and the busy flag is false afterwards. The effects that follow
  the await clear the flag from any state they are applied to.
\<close>

theorem busy_flag_cleared:
  assumes "inputText s = JStr t" and "trim t \<noteq> []" and "apiKey s \<noteq> []"
    and "axios (options s t) = Some out"
  shows "\<exists>es. translateText axios s = Inr es
            \<and> requests es = [options s t]
            \<and> last es = SetIsLoading False
            \<and> isLoading (run es s) = False
            \<and> (\<forall>s'. isLoading (run (translateText_settle out) s') = False)"
proof -
  have "translateText axios s =
          Inr ([SetIsLoading True, SetError [], AxiosRequest (options s t)]
               @ translateText_settle out)"
    using assms by (rule translateText_settled)
  moreover have "requests ([SetIsLoading True, SetError [], AxiosRequest (options s t)]
               @ translateText_settle out) = [options s t]"
    by (simp add: requests_settle)
  moreover have "last ([SetIsLoading True, SetError [], AxiosRequest (options s t)]
               @ translateText_settle out) = SetIsLoading False"
    by (simp only: last_appendR [OF settle_not_Nil] last_settle)
  moreover have "isLoading (run ([SetIsLoading True, SetError [], AxiosRequest (options s t)]
               @ translateText_settle out) s) = False"
    by (simp only: run_append isLoading_settle)
  ultimately show ?thesis
    using isLoading_settle by blast
qed

theorem busy_flag_cleared_witness:
  "inputText (initial_state None (Some (js ''key''))\<lparr>inputText := JStr (js ''Hello'')\<rparr>)
       = JStr (js ''Hello'')
   \<and> trim (js ''Hello'') \<noteq> []
   \<and> apiKey (initial_state None (Some (js ''key''))\<lparr>inputText := JStr (js ''Hello'')\<rparr>) \<noteq> []
   \<and> (\<exists>es. translateText
               (\<lambda>r. Some (Rejected (JObj [(js ''response'', JObj [(js ''status'', JNum (Finite 500))])])))
               (initial_state None (Some (js ''key''))\<lparr>inputText := JStr (js ''Hello'')\<rparr>) = Inr es
          \<and> last es = SetIsLoading False
          \<and> isLoading (run es (initial_state None (Some (js ''key''))\<lparr>inputText := JStr (js ''Hello'')\<rparr>))
              = False)
   \<and> (\<exists>es. translateText (\<lambda>r. Some (Resolved JNull))
               (initial_state None (Some (js ''key''))\<lparr>inputText := JStr (js ''Hello'')\<rparr>) = Inr es
          \<and> last es = SetIsLoading False
          \<and> isLoading (run es (initial_state None (Some (js ''key''))\<lparr>inputText := JStr (js ''Hello'')\<rparr>))
              = False)"
proof -
  have h1: "inputText (initial_state None (Some (js ''key''))\<lparr>inputText := JStr (js ''Hello'')\<rparr>)
       = JStr (js ''Hello'')"
    by simp
  have h2: "trim (js ''Hello'') \<noteq> []"
    by (simp add: trim_def js_def is_whitespace_def)
  have h3: "apiKey (initial_state None (Some (js ''key''))\<lparr>inputText := JStr (js ''Hello'')\<rparr>) \<noteq> []"
    by (simp add: initial_state_def initial_apiKey_def or_string_def or_nullable_def
        trim_def js_def is_whitespace_def)
  have a1: "(\<lambda>r. Some (Rejected (JObj [(js ''response'', JObj [(js ''status'', JNum (Finite 500))])])))
              (options (initial_state None (Some (js ''key''))\<lparr>inputText := JStr (js ''Hello'')\<rparr>) (js ''Hello''))
            = Some (Rejected (JObj [(js ''response'', JObj [(js ''status'', JNum (Finite 500))])]))"
    by simp
  have a2: "(\<lambda>r. Some (Resolved JNull))
              (options (initial_state None (Some (js ''key''))\<lparr>inputText := JStr (js ''Hello'')\<rparr>) (js ''Hello''))
            = Some (Resolved JNull)"
    by simp
  show ?thesis
    using h1 h2 h3
      busy_flag_cleared [OF h1 h2 h3 a1]
      busy_flag_cleared [OF h1 h2 h3 a2]
    by blast
qed

text \<open>
  C6. In every state \<open>swapLanguages\<close> exchanges the source and target language and
  exchanges the input and output text, issues no network request and leaves every other
  state field as it was.
\<close>

theorem swapLanguages_exchanges:
  "run (swapLanguages s) s
     = s\<lparr>sourceLang := targetLang s, targetLang := sourceLang s,
         inputText := translatedText s, translatedText := inputText s\<rparr>
   \<and> inputText (run (swapLanguages s) s) = translatedText s
   \<and> translatedText (run (swapLanguages s) s) = inputText s
   \<and> sourceLang (run (swapLanguages s) s) = targetLang s
   \<and> targetLang (run (swapLanguages s) s) = sourceLang s
   \<and> isLoading (run (swapLanguages s) s) = isLoading s
   \<and> error (run (swapLanguages s) s) = error s
   \<and> copied (run (swapLanguages s) s) = copied s
   \<and> apiKey (run (swapLanguages s) s) = apiKey s
   \<and> tempKey (run (swapLanguages s) s) = tempKey s
   \<and> requests (swapLanguages s) = []"
  by (simp add: swapLanguages_def run_Cons run_Nil)

theorem swapLanguages_exchanges_witness:
  "inputText (run (swapLanguages
       (initial_state None None\<lparr>inputText := JStr (js ''Hello''), translatedText := JStr (js ''Hola'')\<rparr>))
       (initial_state None None\<lparr>inputText := JStr (js ''Hello''), translatedText := JStr (js ''Hola'')\<rparr>))
     = JStr (js ''Hola'')
   \<and> translatedText (run (swapLanguages
       (initial_state None None\<lparr>inputText := JStr (js ''Hello''), translatedText := JStr (js ''Hola'')\<rparr>))
       (initial_state None None\<lparr>inputText := JStr (js ''Hello''), translatedText := JStr (js ''Hola'')\<rparr>))
     = JStr (js ''Hello'')
   \<and> sourceLang (run (swapLanguages
       (initial_state None None\<lparr>inputText := JStr (js ''Hello''), translatedText := JStr (js ''Hola'')\<rparr>))
       (initial_state None None\<lparr>inputText := JStr (js ''Hello''), translatedText := JStr (js ''Hola'')\<rparr>))
     = js ''es''
   \<and> targetLang (run (swapLanguages
       (initial_state None None\<lparr>inputText := JStr (js ''Hello''), translatedText := JStr (js ''Hola'')\<rparr>))
       (initial_state None None\<lparr>inputText := JStr (js ''Hello''), translatedText := JStr (js ''Hola'')\<rparr>))
     = js ''en''"
  using swapLanguages_exchanges
    [of "initial_state None None\<lparr>inputText := JStr (js ''Hello''), translatedText := JStr (js ''Hola'')\<rparr>"]
  by (simp add: initial_state_def)

text \<open>
  C7, as the code has it. At startup the credential is the value chosen by precedence,
  build-time value if non-empty, else stored value if non-empty, else the empty string,
  with leading and trailing whitespace removed.
\<close>

theorem initial_apiKey_trimmed_precedence:
  "initial_apiKey env stored = trim (spec_credential env stored)
   \<and> (\<forall>e. env = Some e \<and> e \<noteq> [] \<longrightarrow> initial_apiKey env stored = trim e)
   \<and> (\<forall>k. (env = None \<or> env = Some []) \<and> stored = Some k \<and> k \<noteq> []
          \<longrightarrow> initial_apiKey env stored = trim k)
   \<and> ((env = None \<or> env = Some []) \<and> (stored = None \<or> stored = Some [])
          \<longrightarrow> initial_apiKey env stored = [])"
  by (auto simp add: initial_apiKey_def spec_credential_def or_string_def or_nullable_def
      js_Nil trim_def split: option.splits)

theorem initial_apiKey_trimmed_precedence_witness:
  "js '' k'' \<noteq> []
   \<and> initial_apiKey (Some (js '' k'')) (Some (js ''z'')) = trim (js '' k'')
   \<and> js ''z '' \<noteq> []
   \<and> initial_apiKey None (Some (js ''z '')) = trim (js ''z '')
   \<and> initial_apiKey (Some []) (Some (js ''z '')) = trim (js ''z '')
   \<and> initial_apiKey None None = []
   \<and> initial_apiKey (Some []) (Some []) = []"
proof -
  have n1: "js '' k'' \<noteq> []" and n2: "js ''z '' \<noteq> []"
    by (simp_all add: js_def)
  have p1: "initial_apiKey (Some (js '' k'')) (Some (js ''z'')) = trim (js '' k'')"
    using n1 initial_apiKey_trimmed_precedence [of "Some (js '' k'')" "Some (js ''z'')", THEN conjunct2]
    by simp
  have p2: "initial_apiKey None (Some (js ''z '')) = trim (js ''z '')"
    using n2 initial_apiKey_trimmed_precedence [of None "Some (js ''z '')", THEN conjunct2]
    by simp
  have p3: "initial_apiKey (Some []) (Some (js ''z '')) = trim (js ''z '')"
    using n2 initial_apiKey_trimmed_precedence [of "Some []" "Some (js ''z '')", THEN conjunct2]
    by simp
  have p4: "initial_apiKey None None = []"
    using initial_apiKey_trimmed_precedence [of None None, THEN conjunct2]
    by simp
  have p5: "initial_apiKey (Some []) (Some []) = []"
    using initial_apiKey_trimmed_precedence [of "Some []" "Some []", THEN conjunct2]
    by simp
  show ?thesis
    using n1 n2 p1 p2 p3 p4 p5 by simp
qed

text \<open>
  The credential is not the chosen value itself: a build-time value with a leading space
  is present, yet the credential differs from it.
\<close>

theorem initial_apiKey_not_verbatim:
  "initial_apiKey (Some (js '' k'')) None = js ''k''
   \<and> spec_credential (Some (js '' k'')) None = js '' k''
   \<and> initial_apiKey (Some (js '' k'')) None \<noteq> js '' k''
   \<and> initial_apiKey (Some (js '' k'')) None \<noteq> spec_credential (Some (js '' k'')) None"
  by (simp add: initial_apiKey_def spec_credential_def or_string_def or_nullable_def
      trim_def js_def is_whitespace_def)

text \<open>
  C8. In every state \<open>clearText\<close> sets the input text, the output text and the error
  to the empty string, issues no network request and leaves the language selections, the
  credential, the busy flag and every other field as they were.
\<close>

theorem clearText_resets:
  "run (clearText s) s = s\<lparr>inputText := JStr [], translatedText := JStr [], error := []\<rparr>
   \<and> inputText (run (clearText s) s) = JStr []
   \<and> translatedText (run (clearText s) s) = JStr []
   \<and> error (run (clearText s) s) = []
   \<and> sourceLang (run (clearText s) s) = sourceLang s
   \<and> targetLang (run (clearText s) s) = targetLang s
   \<and> apiKey (run (clearText s) s) = apiKey s
   \<and> isLoading (run (clearText s) s) = isLoading s
   \<and> copied (run (clearText s) s) = copied s
   \<and> tempKey (run (clearText s) s) = tempKey s
   \<and> requests (clearText s) = []"
  by (simp add: clearText_def run_Cons run_Nil js_Nil)

theorem clearText_resets_witness:
  "run (clearText
       (initial_state None None\<lparr>inputText := JStr (js ''Hello''), translatedText := JStr (js ''Hola''),
          error := message TranslationFailed\<rparr>))
     (initial_state None None\<lparr>inputText := JStr (js ''Hello''), translatedText := JStr (js ''Hola''),
          error := message TranslationFailed\<rparr>)
   = initial_state None None"
  using clearText_resets
    [of "initial_state None None\<lparr>inputText := JStr (js ''Hello''), translatedText := JStr (js ''Hola''),
          error := message TranslationFailed\<rparr>"]
  by (simp add: initial_state_def js_Nil)

text \<open>
  C9. When the trimmed input text is empty and the credential is absent as well,
  \<open>translateText\<close> yields \<open>EmptyInput\<close> and not \<open>MissingCredential\<close>: the input check
  comes first.
\<close>

theorem empty_input_checked_first:
  assumes "inputText s = JStr t" and "trim t = []" and "apiKey s = []"
  shows "\<exists>es. translateText axios s = Inr es
            \<and> error_messages es = [message EmptyInput]
            \<and> error (run es s) = message EmptyInput
            \<and> error (run es s) \<noteq> message MissingCredential"
proof -
  have "translateText axios s = Inr [SetError (message EmptyInput)]"
    using assms(1,2) by (rule translateText_blank)
  moreover have "message EmptyInput \<noteq> message MissingCredential"
    by (simp only: message_inj) simp
  ultimately show ?thesis
    by (simp add: run_Cons run_Nil)
qed

theorem empty_input_checked_first_witness:
  "inputText (initial_state None None) = JStr []
   \<and> trim [] = []
   \<and> apiKey (initial_state None None) = []
   \<and> (\<exists>es. translateText (\<lambda>r. None) (initial_state None None) = Inr es
          \<and> error_messages es = [message EmptyInput]
          \<and> error (run es (initial_state None None)) = message EmptyInput
          \<and> error (run es (initial_state None None)) \<noteq> message MissingCredential)"
proof -
  have h1: "inputText (initial_state None None) = JStr []"
    by (simp add: initial_state_def js_Nil)
  have h2: "trim [] = []"
    by (simp add: trim_def)
  have h3: "apiKey (initial_state None None) = []"
    by (simp add: initial_state_def initial_apiKey_def or_string_def or_nullable_def
        trim_def js_def)
  show ?thesis
    using h1 h2 h3 empty_input_checked_first [OF h1 h2 h3, of "\<lambda>r. None"]
    by blast
qed

text \<open>
  C10. On every failure of \<open>translateText\<close>, that is empty input, missing credential
  or a rejected request, no effect writes the translated output and its value after the
  run is the value before it; the effects after a rejection keep it from any state. A
  resolved request does write it.
\<close>

theorem output_kept_on_failure:
  assumes "inputText s = JStr t"
  shows "((trim t = [] \<or> apiKey s = [] \<or> (\<exists>err. axios (options s t) = Some (Rejected err)))
          \<longrightarrow> (\<exists>es. translateText axios s = Inr es
                 \<and> (\<forall>v. SetTranslatedText v \<notin> set es)
                 \<and> translatedText (run es s) = translatedText s))
       \<and> (\<forall>err s'. translatedText (run (translateText_settle (Rejected err)) s') = translatedText s')
       \<and> (trim t \<noteq> [] \<and> apiKey s \<noteq> [] \<and> (\<exists>response. axios (options s t) = Some (Resolved response))
          \<longrightarrow> (\<exists>es v. translateText axios s = Inr es \<and> SetTranslatedText v \<in> set es))"
proof -
  have a: "\<exists>es. translateText axios s = Inr es
                 \<and> (\<forall>v. SetTranslatedText v \<notin> set es)
                 \<and> translatedText (run es s) = translatedText s"
    if "trim t = []"
  proof -
    have "translateText axios s = Inr [SetError (message EmptyInput)]"
      using assms that by (rule translateText_blank)
    then show ?thesis
      by (simp add: run_Cons run_Nil)
  qed
  have b: "\<exists>es. translateText axios s = Inr es
                 \<and> (\<forall>v. SetTranslatedText v \<notin> set es)
                 \<and> translatedText (run es s) = translatedText s"
    if "trim t \<noteq> []" and "apiKey s = []"
  proof -
    have "translateText axios s = Inr [SetError (message MissingCredential)]"
      using assms that by (rule translateText_no_key)
    then show ?thesis
      by (simp add: run_Cons run_Nil)
  qed
  have c: "\<exists>es. translateText axios s = Inr es
                 \<and> (\<forall>v. SetTranslatedText v \<notin> set es)
                 \<and> translatedText (run es s) = translatedText s"
    if "trim t \<noteq> []" and "apiKey s \<noteq> []" and "axios (options s t) = Some (Rejected err)" for err
  proof -
    have "translateText axios s =
          Inr ([SetIsLoading True, SetError [], AxiosRequest (options s t)]
               @ translateText_settle (Rejected err))"
      using assms that by (rule translateText_settled)
    then show ?thesis
      by (simp add: run_Cons run_Nil)
  qed
  have d: "translatedText (run (translateText_settle (Rejected err)) s') = translatedText s'"
    for err s'
    by (simp add: run_Cons run_Nil)
  have e: "\<exists>es v. translateText axios s = Inr es \<and> SetTranslatedText v \<in> set es"
    if "trim t \<noteq> []" and "apiKey s \<noteq> []" and "axios (options s t) = Some (Resolved response)"
    for response
  proof -
    have "translateText axios s =
          Inr ([SetIsLoading True, SetError [], AxiosRequest (options s t)]
               @ translateText_settle (Resolved response))"
      using assms that by (rule translateText_settled)
    then show ?thesis
      by simp
  qed
  show ?thesis
    using a b c d e by blast
qed

theorem output_kept_on_failure_witness:
  "inputText (initial_state (Some (js ''key'')) None
       \<lparr>inputText := JStr (js ''Hello''), translatedText := JStr (js ''Hola'')\<rparr>)
     = JStr (js ''Hello'')
   \<and> (\<lambda>r. Some (Rejected JUndefined))
        (options (initial_state (Some (js ''key'')) None
            \<lparr>inputText := JStr (js ''Hello''), translatedText := JStr (js ''Hola'')\<rparr>) (js ''Hello''))
      = Some (Rejected JUndefined)
   \<and> (\<exists>es. translateText (\<lambda>r. Some (Rejected JUndefined))
               (initial_state (Some (js ''key'')) None
                  \<lparr>inputText := JStr (js ''Hello''), translatedText := JStr (js ''Hola'')\<rparr>) = Inr es
          \<and> (\<forall>v. SetTranslatedText v \<notin> set es)
          \<and> translatedText (run es (initial_state (Some (js ''key'')) None
                  \<lparr>inputText := JStr (js ''Hello''), translatedText := JStr (js ''Hola'')\<rparr>))
              = JStr (js ''Hola''))"
proof -
  have h1: "inputText (initial_state (Some (js ''key'')) None
       \<lparr>inputText := JStr (js ''Hello''), translatedText := JStr (js ''Hola'')\<rparr>)
     = JStr (js ''Hello'')"
    by simp
  have a: "(\<lambda>r. Some (Rejected JUndefined))
        (options (initial_state (Some (js ''key'')) None
            \<lparr>inputText := JStr (js ''Hello''), translatedText := JStr (js ''Hola'')\<rparr>) (js ''Hello''))
      = Some (Rejected JUndefined)"
    by simp
  have t: "translatedText (initial_state (Some (js ''key'')) None
       \<lparr>inputText := JStr (js ''Hello''), translatedText := JStr (js ''Hola'')\<rparr>)
     = JStr (js ''Hola'')"
    by simp
  show ?thesis
    using h1 a t output_kept_on_failure [OF h1, of "\<lambda>r. Some (Rejected JUndefined)"]
    by (simp only: simp_thms) blast
qed

end
